theory Spec2Isabelle
  imports Main
begin

section \<open>Snapshot testing helper: the data model\<close>

text \<open>
  The development follows \<^verbatim>\<open>snapshot.go\<close>. Go strings and byte slices are byte
  sequences; a HOL \<^typ>\<open>char\<close> is one byte, so both are \<^typ>\<open>string\<close>.
  Go's \<^verbatim>\<open>int\<close> is \<^typ>\<open>int\<close>: the program stores and passes the context count
  and never computes with it.
\<close>

type_synonym bytes = string

text \<open>
  A Go \<^verbatim>\<open>error\<close> value. The program asks only whether an error is a not-exist
  error (\<^verbatim>\<open>os.IsNotExist\<close>) and for its text (\<^verbatim>\<open>%s\<close>).
\<close>

datatype error =
    ErrNotExist string string  \<comment> \<open>operation and path\<close>
  | ErrOther string           \<comment> \<open>any other error, with its text\<close>

fun Error :: "error \<Rightarrow> string" where
  "Error (ErrNotExist opn p) = opn @ '' '' @ p @ '': no such file or directory''"
| "Error (ErrOther msg) = msg"

text \<open>
  A compiled \<^verbatim>\<open>*regexp.Regexp\<close> is represented by its \<^verbatim>\<open>FindStringIndex\<close>
  method: the location of the leftmost match in a string, if there is one.
\<close>

type_synonym Regexp = "string \<Rightarrow> (nat \<times> nat) option"

record Config =
  Directory :: string
  Context :: int
  Diffable :: bool
  Extension :: string
  ignore :: "Regexp option"

text \<open>
  \<^verbatim>\<open>type ConfigOption func(c *Config) error\<close>: the option's error, and the
  configuration as the option leaves it.
\<close>

type_synonym ConfigOption = "Config \<Rightarrow> error option \<times> Config"

subsection \<open>Library functions the program calls\<close>

text \<open>
  The functions of \<^verbatim>\<open>path\<close>, \<^verbatim>\<open>regexp\<close>, \<^verbatim>\<open>difflib\<close> and the Unicode part of
  \<^verbatim>\<open>strings.ToLower\<close> are not part of the repository: they are parameters.
\<close>

record Lib =
  path_Join :: "string \<Rightarrow> string \<Rightarrow> string"
  unicode_ToLower :: "string \<Rightarrow> string"
  regexp_Compile :: "string \<Rightarrow> error + Regexp"
  difflib_SplitLines :: "string \<Rightarrow> string list"
  difflib_GetUnifiedDiffString ::
    "string list \<Rightarrow> string list \<Rightarrow> string \<Rightarrow> string \<Rightarrow> int \<Rightarrow> error + string"

subsection \<open>The process environment and the file system\<close>

datatype fsop = OpStat | OpMkdir | OpCreate | OpWrite | OpClose | OpRead

text \<open>
  The world outside the program: the directories and regular files the process can
  reach, by path, the process environment, the result of \<^verbatim>\<open>os.Getwd\<close>, and the
  operations the operating system refuses (permissions, a full disk, a path under a
  regular file, a name too long, ...) with the error it gives.
\<close>

record World =
  dirs :: "string set"
  files :: "string \<rightharpoonup> bytes"
  environ :: "string \<rightharpoonup> string"
  getwd :: "error + string"
  faults :: "fsop \<times> string \<rightharpoonup> error"

definition os_LookupEnv :: "World \<Rightarrow> string \<Rightarrow> string \<times> bool" where
  "os_LookupEnv w key = (case environ w key of None \<Rightarrow> ('''', False) | Some v \<Rightarrow> (v, True))"

text \<open>
  \<^verbatim>\<open>os.Stat\<close> succeeds on a directory or file the process can reach. On any other
  path it fails: with the error the system gives for that path (not a directory,
  permission denied, file name too long, ...) when it gives one, otherwise with the
  error that the path does not exist.
\<close>

definition os_Stat :: "World \<Rightarrow> string \<Rightarrow> error option" where
  "os_Stat w p =
     (if p \<in> dirs w \<or> files w p \<noteq> None then None
      else (case faults w (OpStat, p) of
              Some e \<Rightarrow> Some e
            | None \<Rightarrow> Some (ErrNotExist ''stat'' p)))"

fun os_IsNotExist :: "error option \<Rightarrow> bool" where
  "os_IsNotExist (Some (ErrNotExist _ _)) = True"
| "os_IsNotExist _ = False"

text \<open>The proper ancestors of a slash-separated path, shortest first.\<close>

definition path_parents :: "string \<Rightarrow> string list" where
  "path_parents p = [take i p. i \<leftarrow> [1..<length p], p ! i = CHR ''/'']"

text \<open>
  \<^verbatim>\<open>os.MkdirAll\<close>: nothing to do for an existing directory, an error for a regular
  file or when the system refuses, otherwise the directory and its parents exist.
\<close>

definition os_MkdirAll :: "World \<Rightarrow> string \<Rightarrow> error option \<times> World" where
  "os_MkdirAll w p =
     (if p \<in> dirs w then (None, w)
      else if files w p \<noteq> None then (Some (ErrOther (''mkdir '' @ p @ '': not a directory'')), w)
      else (case faults w (OpMkdir, p) of
              Some e \<Rightarrow> (Some e, w)
            | None \<Rightarrow> (None, w\<lparr>dirs := dirs w \<union> set (path_parents p) \<union> {p}\<rparr>)))"

text \<open>\<^verbatim>\<open>os.Create\<close> creates the file or truncates it; the handle is the path.\<close>

definition os_Create :: "World \<Rightarrow> string \<Rightarrow> error option \<times> World" where
  "os_Create w p =
     (case faults w (OpCreate, p) of
        Some e \<Rightarrow> (Some e, w)
      | None \<Rightarrow>
          if p \<in> dirs w then (Some (ErrOther (''open '' @ p @ '': is a directory'')), w)
          else (None, w\<lparr>files := (files w)(p \<mapsto> [])\<rparr>))"

text \<open>\<^verbatim>\<open>f.Write\<close> on the handle: a refused write leaves the file as it is.\<close>

definition File_Write :: "World \<Rightarrow> string \<Rightarrow> bytes \<Rightarrow> error option \<times> World" where
  "File_Write w f b =
     (case faults w (OpWrite, f) of
        Some e \<Rightarrow> (Some e, w)
      | None \<Rightarrow>
          (case files w f of
             None \<Rightarrow> (Some (ErrOther (''write '' @ f @ '': file already closed'')), w)
           | Some old \<Rightarrow> (None, w\<lparr>files := (files w)(f \<mapsto> old @ b)\<rparr>)))"

definition File_Close :: "World \<Rightarrow> string \<Rightarrow> error option" where
  "File_Close w f = faults w (OpClose, f)"

definition ioutil_ReadFile :: "World \<Rightarrow> string \<Rightarrow> error + bytes" where
  "ioutil_ReadFile w p =
     (case faults w (OpRead, p) of
        Some e \<Rightarrow> Inl e
      | None \<Rightarrow>
          if p \<in> dirs w then Inl (ErrOther (''read '' @ p @ '': is a directory''))
          else (case files w p of
                  None \<Rightarrow> Inl (ErrNotExist ''open'' p)
                | Some bs \<Rightarrow> Inr bs))"

subsection \<open>\<^verbatim>\<open>strings.ToLower\<close> and \<^verbatim>\<open>strings.Replacer\<close>\<close>

definition lower_byte :: "char \<Rightarrow> char" where
  "lower_byte ch =
     (if (65::nat) \<le> of_char ch \<and> of_char ch \<le> (90::nat)
      then char_of (of_char ch + (32::nat)) else ch)"

text \<open>
  \<^verbatim>\<open>strings.ToLower\<close> lowers an ASCII-only string byte by byte and maps
  \<^verbatim>\<open>unicode.ToLower\<close> over the runes of any other string.
\<close>

definition strings_ToLower :: "Lib \<Rightarrow> string \<Rightarrow> string" where
  "strings_ToLower L s =
     (if list_all (\<lambda>ch. of_char ch < (128::nat)) s then map lower_byte s
      else unicode_ToLower L s)"

text \<open>
  A replacer whose old and new strings are all single bytes replaces byte by byte;
  the first pair for a byte wins.
\<close>

definition Replacer_Replace :: "(char \<times> char) list \<Rightarrow> string \<Rightarrow> string" where
  "Replacer_Replace oldnew s =
     map (\<lambda>ch. case map_of oldnew ch of None \<Rightarrow> ch | Some n \<Rightarrow> n) s"

section \<open>The program\<close>

subsection \<open>Configuration\<close>

fun apply_options :: "ConfigOption list \<Rightarrow> Config \<Rightarrow> error + Config" where
  "apply_options [] c = Inr c"
| "apply_options (opt # options) c =
     (case opt c of
        (Some err, _) \<Rightarrow> Inl err
      | (None, c') \<Rightarrow> apply_options options c')"

definition New :: "Lib \<Rightarrow> World \<Rightarrow> ConfigOption list \<Rightarrow> error + Config" where
  "New L w options =
     (case getwd w of
        Inl err \<Rightarrow> Inl err
      | Inr wd \<Rightarrow>
          apply_options options
            \<lparr>Directory = path_Join L wd ''__snapshots__'',
             Context = 10,
             Diffable = True,
             Extension = ''.snap'',
             ignore = None\<rparr>)"

definition SnapDirectory :: "string \<Rightarrow> ConfigOption" where
  "SnapDirectory dir = (\<lambda>c. (None, c\<lparr>Directory := dir\<rparr>))"

definition ContextLines :: "int \<Rightarrow> ConfigOption" where
  "ContextLines n = (\<lambda>c. (None, c\<lparr>Context := n\<rparr>))"

definition DiffableOption :: "bool \<Rightarrow> ConfigOption" where
  "DiffableOption b = (\<lambda>c. (None, c\<lparr>Diffable := b\<rparr>))"

definition IgnoreRegex :: "Lib \<Rightarrow> string \<Rightarrow> ConfigOption" where
  "IgnoreRegex L r =
     (\<lambda>c. case regexp_Compile L r of
             Inl err \<Rightarrow> (Some err, c)
           | Inr reg \<Rightarrow> (None, c\<lparr>ignore := Some reg\<rparr>))"

definition SnapExtension :: "string \<Rightarrow> ConfigOption" where
  "SnapExtension ext = (\<lambda>c. (None, c\<lparr>Extension := ext\<rparr>))"

subsection \<open>The snapshot store\<close>

definition isUpdateable :: "World \<Rightarrow> bool" where
  "isUpdateable w = snd (os_LookupEnv w ''UPDATE_SNAPSHOTS'')"

definition getSnapFilename :: "Lib \<Rightarrow> string \<Rightarrow> string \<Rightarrow> string" where
  "getSnapFilename L testname ext =
     Replacer_Replace
       [(CHR 0x27, CHR ''-''), (CHR '' '', CHR ''-''), (CHR ''<'', CHR ''-''),
        (CHR ''>'', CHR ''-''), (CHR ''&'', CHR ''-''), (CHR ''#'', CHR ''-''),
        (CHR ''/'', CHR ''-''), (CHR 0x5C, CHR ''-'')]
       (strings_ToLower L testname) @ ext"

definition createSnapshot ::
  "Lib \<Rightarrow> string \<Rightarrow> bytes \<Rightarrow> string \<Rightarrow> string \<Rightarrow> World \<Rightarrow> error option \<times> World" where
  "createSnapshot L testname b dir ext w =
     (let snapFile = getSnapFilename L testname ext;
          f = path_Join L dir snapFile
      in case os_Create w f of
           (Some err, w1) \<Rightarrow> (Some err, w1)
         | (None, w1) \<Rightarrow>
             (case File_Write w1 f b of
                (Some err, w2) \<Rightarrow> (Some err, w2)
              | (None, w2) \<Rightarrow> (File_Close w2 f, w2)))"

definition readSnapshot :: "Lib \<Rightarrow> string \<Rightarrow> string \<Rightarrow> string \<Rightarrow> World \<Rightarrow> error + bytes" where
  "readSnapshot L testname dir ext w =
     ioutil_ReadFile w (path_Join L dir (getSnapFilename L testname ext))"

definition getDiff :: "Lib \<Rightarrow> bytes \<Rightarrow> bytes \<Rightarrow> int \<Rightarrow> error + string" where
  "getDiff L expected b context =
     difflib_GetUnifiedDiffString L
       (difflib_SplitLines L expected) (difflib_SplitLines L b)
       ''Expected'' ''Received'' context"

subsection \<open>The assertion\<close>

text \<open>
  The test handle \<^verbatim>\<open>t\<close> gives the test's name; \<^verbatim>\<open>t.Fatalf\<close> fails the test
  with a message and stops the assertion there.
\<close>

datatype outcome = Pass | Fatal string

text \<open>
  The three places where \<^verbatim>\<open>Config.Assert\<close> writes the snapshot read the same:
  \<^verbatim>\<open>createSnapshot\<close>, \<^verbatim>\<open>t.Fatalf\<close> on its error, otherwise return.
\<close>

definition recordSnapshot ::
  "Lib \<Rightarrow> Config \<Rightarrow> string \<Rightarrow> bytes \<Rightarrow> World \<Rightarrow> outcome \<times> World" where
  "recordSnapshot L c name b w =
     (case createSnapshot L name b (Directory c) (Extension c) w of
        (Some err, w1) \<Rightarrow> (Fatal (''Unable to create snapshot: '' @ Error err), w1)
      | (None, w1) \<Rightarrow> (Pass, w1))"

definition Config_Assert ::
  "Lib \<Rightarrow> Config \<Rightarrow> string \<Rightarrow> bytes \<Rightarrow> World \<Rightarrow> outcome \<times> World" where
  "Config_Assert L c name b w =
     (if os_IsNotExist (os_Stat w (Directory c)) then
        (if isUpdateable w then
           (case os_MkdirAll w (Directory c) of
              (Some err, w1) \<Rightarrow>
                (Fatal ''Unable to create the snapshot directory, failing'', w1)
            | (None, w1) \<Rightarrow> recordSnapshot L c name b w1)
         else
           (Fatal ''No snapshot directory exists and UPDATE_SNAPSHOTS=false.  Failing.'', w))
      else
        (case readSnapshot L name (Directory c) (Extension c) w of
           Inl err \<Rightarrow> recordSnapshot L c name b w
         | Inr expected \<Rightarrow>
             if expected = b then (Pass, w)
             else if isUpdateable w then recordSnapshot L c name b w
             else if Diffable c then
               (case getDiff L expected b (Context c) of
                  Inl err \<Rightarrow>
                    (Fatal (''Unable to compare snapshot to test output: '' @ Error err), w)
                | Inr diff \<Rightarrow>
                    (let failed =
                       (Fatal (''Snapshot test failed for: '' @ name @ ''.  Diff:''
                               @ [CHR 0x0A, CHR 0x0A] @ diff), w)
                     in case ignore c of
                          None \<Rightarrow> failed
                        | Some re \<Rightarrow>
                            (case re diff of
                               Some m \<Rightarrow> (Pass, w)
                             | None \<Rightarrow> failed)))
             else
               (Fatal (''Snapshot test failed for: '' @ name
                       @ ''.  Diff: (undiffable binary format)''), w)))"

text \<open>
  The package-level \<^verbatim>\<open>Assert\<close>: the default configuration; a byte slice is used
  as it is, any other value is dumped by \<^verbatim>\<open>spew\<close> (a parameter) first.
\<close>

datatype 'v iface = ByteSlice bytes | Value 'v

definition Assert ::
  "Lib \<Rightarrow> ('v \<Rightarrow> bytes) \<Rightarrow> string \<Rightarrow> 'v iface \<Rightarrow> World \<Rightarrow> outcome \<times> World" where
  "Assert L Fdump name b w =
     (case New L w [] of
        Inl err \<Rightarrow> (Fatal (''Unable to create new snapshot config: '' @ Error err), w)
      | Inr c \<Rightarrow>
          (case b of
             ByteSlice bs \<Rightarrow> Config_Assert L c name bs w
           | Value v \<Rightarrow> Config_Assert L c name (Fdump v) w))"

subsection \<open>Vocabulary of the statements\<close>

text \<open>The path at which the snapshot of a test is stored.\<close>

definition snapshotPath :: "Lib \<Rightarrow> Config \<Rightarrow> string \<Rightarrow> string" where
  "snapshotPath L c name = path_Join L (Directory c) (getSnapFilename L name (Extension c))"

text \<open>The operating system lets the file at a path be read, or be created and written.\<close>

definition readable :: "World \<Rightarrow> string \<Rightarrow> bool" where
  "readable w p = (p \<notin> dirs w \<and> faults w (OpRead, p) = None)"

definition writable :: "World \<Rightarrow> string \<Rightarrow> bool" where
  "writable w p =
     (p \<notin> dirs w \<and> faults w (OpCreate, p) = None
      \<and> faults w (OpWrite, p) = None \<and> faults w (OpClose, p) = None)"

subsection \<open>A concrete library and world for closed instances\<close>

text \<open>
  A small stand-in for the libraries: paths joined by a slash, patterns matched as
  literal text, and a diff that lists the old lines as removed and the new ones as
  added under the two labels.
\<close>

fun literal_FindStringIndex :: "string \<Rightarrow> nat \<Rightarrow> string \<Rightarrow> (nat \<times> nat) option" where
  "literal_FindStringIndex pat i [] = (if pat = [] then Some (i, i) else None)"
| "literal_FindStringIndex pat i (x # xs) =
     (if take (length pat) (x # xs) = pat then Some (i, i + length pat)
      else literal_FindStringIndex pat (Suc i) xs)"

definition example_Lib :: Lib where
  "example_Lib =
     \<lparr>path_Join = (\<lambda>dir file. dir @ ''/'' @ file),
      unicode_ToLower = (\<lambda>s. s),
      regexp_Compile = (\<lambda>r. Inr (literal_FindStringIndex r 0)),
      difflib_SplitLines = (\<lambda>s. [s]),
      difflib_GetUnifiedDiffString =
        (\<lambda>a b fromFile toFile n.
           Inr (''--- '' @ fromFile @ '' +++ '' @ toFile @ '' ''
                @ concat (map (\<lambda>l. ''-'' @ l) a) @ concat (map (\<lambda>l. ''+'' @ l) b)))\<rparr>"

text \<open>
  A world whose snapshot directory holds the snapshot \<^verbatim>\<open>abc\<close> of the test
  \<^verbatim>\<open>TestX\<close>, and one with no snapshot directory yet.
\<close>

definition example_World :: World where
  "example_World =
     \<lparr>dirs = {''/w'', ''/w/__snapshots__''},
      files = [''/w/__snapshots__/testx.snap'' \<mapsto> ''abc''],
      environ = Map.empty,
      getwd = Inr ''/w'',
      faults = Map.empty\<rparr>"

definition fresh_World :: World where
  "fresh_World =
     \<lparr>dirs = {''/w''},
      files = Map.empty,
      environ = Map.empty,
      getwd = Inr ''/w'',
      faults = Map.empty\<rparr>"

definition example_Config :: Config where
  "example_Config =
     \<lparr>Directory = ''/w/__snapshots__'',
      Context = 10,
      Diffable = True,
      Extension = ''.snap'',
      ignore = None\<rparr>"

section \<open>Properties\<close>

subsection \<open>Snapshot file names\<close>

text \<open>
  Claim C7, as the program has it. The file name of a test is its lower-cased name
  in which each apostrophe, space, \<^verbatim>\<open><\<close>, \<^verbatim>\<open>>\<close>, \<^verbatim>\<open>&\<close>, \<^verbatim>\<open>#\<close>, slash and
  backslash is replaced by a dash and every other byte is kept, followed by the
  extension. A colon is not in the replacement set: the test \<^verbatim>\<open>Test: A/B <X>\<close>
  with the extension \<^verbatim>\<open>.snap\<close> is stored as \<^verbatim>\<open>test:-a-b--x-.snap\<close>.
\<close>

theorem getSnapFilename_normalises:
  "getSnapFilename L testname ext =
     map (\<lambda>ch. if ch \<in> {CHR 0x27, CHR '' '', CHR ''<'', CHR ''>'', CHR ''&'', CHR ''#'',
                          CHR ''/'', CHR 0x5C}
                then CHR ''-'' else ch)
       (strings_ToLower L testname) @ ext
   \<and> getSnapFilename L ''Test: A/B <X>'' ''.snap'' = ''test:-a-b--x-.snap''"
proof
  show "getSnapFilename L testname ext =
     map (\<lambda>ch. if ch \<in> {CHR 0x27, CHR '' '', CHR ''<'', CHR ''>'', CHR ''&'', CHR ''#'',
                          CHR ''/'', CHR 0x5C}
                then CHR ''-'' else ch)
       (strings_ToLower L testname) @ ext"
    by (simp add: getSnapFilename_def Replacer_Replace_def)
  show "getSnapFilename L ''Test: A/B <X>'' ''.snap'' = ''test:-a-b--x-.snap''"
    by code_simp
qed

theorem getSnapFilename_normalises_witness:
  "getSnapFilename example_Lib ''Test A#1'' ''.txt'' = ''test-a-1.txt''"
proof -
  have lowered: "strings_ToLower example_Lib ''Test A#1'' = ''test a#1''"
    by code_simp
  show ?thesis
    using getSnapFilename_normalises [of example_Lib "''Test A#1''" "''.txt''"]
    by (simp add: lowered)
qed

text \<open>
  The file name the specification gives for \<^verbatim>\<open>Test: A/B <X>\<close>, with three dashes
  after \<^verbatim>\<open>test\<close>, is not the one the program computes.
\<close>

theorem getSnapFilename_example_counterexample:
  "getSnapFilename example_Lib ''Test: A/B <X>'' ''.snap'' \<noteq> ''test---a-b--x-.snap''"
  by code_simp

subsection \<open>Update mode\<close>

text \<open>
  Claim C8. Update mode is on exactly when \<^verbatim>\<open>UPDATE_SNAPSHOTS\<close> is present in the
  environment: setting it to any value, the empty string included, turns it on, and
  removing it turns it off. The flag is read from the environment of the moment:
  with no snapshot directory, an assertion made while the variable is absent fails
  for the missing directory and changes nothing, and the next assertion with the
  same configuration, made once the variable is set, no longer does. No snapshot
  directory means here what it means to the program: \<^verbatim>\<open>os.Stat\<close> on the
  configured path fails with a not-exist error.
\<close>

theorem isUpdateable_presence:
  "(isUpdateable w \<longleftrightarrow> ''UPDATE_SNAPSHOTS'' \<in> dom (environ w))
   \<and> isUpdateable (w\<lparr>environ := (environ w)(''UPDATE_SNAPSHOTS'' \<mapsto> v)\<rparr>)
   \<and> \<not> isUpdateable (w\<lparr>environ := (environ w)(''UPDATE_SNAPSHOTS'' := None)\<rparr>)
   \<and> (os_IsNotExist (os_Stat w (Directory c))
        \<and> ''UPDATE_SNAPSHOTS'' \<notin> dom (environ w) \<longrightarrow>
      Config_Assert L c name b w =
        (Fatal ''No snapshot directory exists and UPDATE_SNAPSHOTS=false.  Failing.'', w)
      \<and> fst (Config_Assert L c name b
               (w\<lparr>environ := (environ w)(''UPDATE_SNAPSHOTS'' \<mapsto> v)\<rparr>))
          \<noteq> Fatal ''No snapshot directory exists and UPDATE_SNAPSHOTS=false.  Failing.'')"
proof (intro conjI impI)
  show "isUpdateable w \<longleftrightarrow> ''UPDATE_SNAPSHOTS'' \<in> dom (environ w)"
    by (auto simp: isUpdateable_def os_LookupEnv_def split: option.splits)
  show "isUpdateable (w\<lparr>environ := (environ w)(''UPDATE_SNAPSHOTS'' \<mapsto> v)\<rparr>)"
    by (simp add: isUpdateable_def os_LookupEnv_def)
  show "\<not> isUpdateable (w\<lparr>environ := (environ w)(''UPDATE_SNAPSHOTS'' := None)\<rparr>)"
    by (simp add: isUpdateable_def os_LookupEnv_def)
next
  assume absent: "os_IsNotExist (os_Stat w (Directory c))
                  \<and> ''UPDATE_SNAPSHOTS'' \<notin> dom (environ w)"
  then have off: "\<not> isUpdateable w"
    by (auto simp: isUpdateable_def os_LookupEnv_def split: option.splits)
  from absent have nodir: "os_IsNotExist (os_Stat w (Directory c))"
    by simp
  show "Config_Assert L c name b w =
        (Fatal ''No snapshot directory exists and UPDATE_SNAPSHOTS=false.  Failing.'', w)"
    using off nodir by (simp add: Config_Assert_def)
next
  assume absent: "os_IsNotExist (os_Stat w (Directory c))
                  \<and> ''UPDATE_SNAPSHOTS'' \<notin> dom (environ w)"
  let ?w = "w\<lparr>environ := (environ w)(''UPDATE_SNAPSHOTS'' \<mapsto> v)\<rparr>"
  have on: "isUpdateable ?w"
    by (simp add: isUpdateable_def os_LookupEnv_def)
  have "os_Stat ?w (Directory c) = os_Stat w (Directory c)"
    by (simp add: os_Stat_def)
  with absent have nodir': "os_IsNotExist (os_Stat ?w (Directory c))"
    by simp
  show "fst (Config_Assert L c name b ?w)
          \<noteq> Fatal ''No snapshot directory exists and UPDATE_SNAPSHOTS=false.  Failing.''"
    using on nodir'
    by (simp add: Config_Assert_def recordSnapshot_def split: prod.splits option.splits)
qed

theorem isUpdateable_presence_witness:
  "isUpdateable (fresh_World\<lparr>environ := [''UPDATE_SNAPSHOTS'' \<mapsto> '''']\<rparr>)
   \<and> \<not> isUpdateable fresh_World
   \<and> Config_Assert example_Lib example_Config ''TestX'' ''abc'' fresh_World =
       (Fatal ''No snapshot directory exists and UPDATE_SNAPSHOTS=false.  Failing.'',
        fresh_World)
   \<and> fst (Config_Assert example_Lib example_Config ''TestX'' ''abc''
            (fresh_World\<lparr>environ := [''UPDATE_SNAPSHOTS'' \<mapsto> '''']\<rparr>))
       \<noteq> Fatal ''No snapshot directory exists and UPDATE_SNAPSHOTS=false.  Failing.''"
  using isUpdateable_presence [of fresh_World "''''" example_Config example_Lib "''TestX''" "''abc''"]
  by (simp add: fresh_World_def example_Config_def os_Stat_def)

subsection \<open>Facts about the store\<close>

lemma isUpdateable_files [simp]: "isUpdateable (w\<lparr>files := f\<rparr>) = isUpdateable w"
  by (simp add: isUpdateable_def os_LookupEnv_def)

lemma isUpdateable_dirs [simp]: "isUpdateable (w\<lparr>dirs := d\<rparr>) = isUpdateable w"
  by (simp add: isUpdateable_def os_LookupEnv_def)

lemma Stat_present: "Directory c \<in> dirs w \<Longrightarrow> \<not> os_IsNotExist (os_Stat w (Directory c))"
  by (simp add: os_Stat_def)

lemma Stat_not_exist:
  "os_IsNotExist (os_Stat w p) \<Longrightarrow> p \<notin> dirs w \<and> files w p = None"
  by (auto simp: os_Stat_def split: if_splits)

lemma readSnapshot_Inr:
  "readSnapshot L name (Directory c) (Extension c) w = Inr e \<longleftrightarrow>
   readable w (snapshotPath L c name) \<and> files w (snapshotPath L c name) = Some e"
  by (auto simp add: readSnapshot_def ioutil_ReadFile_def readable_def snapshotPath_def
      split: option.splits)

lemma readSnapshot_absent:
  "files w (snapshotPath L c name) = None \<Longrightarrow>
   \<exists>err. readSnapshot L name (Directory c) (Extension c) w = Inl err"
  by (simp add: readSnapshot_def ioutil_ReadFile_def snapshotPath_def split: option.splits)

lemma recordSnapshot_Pass:
  "recordSnapshot L c name b w = (Pass, w1) \<longleftrightarrow>
     writable w (snapshotPath L c name)
     \<and> w1 = w\<lparr>files := (files w)(snapshotPath L c name \<mapsto> b)\<rparr>"
  by (auto simp: recordSnapshot_def createSnapshot_def os_Create_def File_Write_def
      File_Close_def Let_def writable_def snapshotPath_def
      split: option.splits if_splits prod.splits)

lemma recordSnapshot_writable:
  "writable w (snapshotPath L c name) \<Longrightarrow>
   recordSnapshot L c name b w =
     (Pass, w\<lparr>files := (files w)(snapshotPath L c name \<mapsto> b)\<rparr>)"
  by (simp add: recordSnapshot_Pass)

lemma recordSnapshot_again:
  "recordSnapshot L c name b w = (r, w1) \<Longrightarrow> recordSnapshot L c name b w1 = (r, w1)"
  by (auto simp: recordSnapshot_def createSnapshot_def os_Create_def File_Write_def
      File_Close_def Let_def
      split: option.splits if_splits prod.splits)

lemma recordSnapshot_keeps:
  "recordSnapshot L c name b w = (r, w1) \<Longrightarrow>
     dirs w1 = dirs w \<and> environ w1 = environ w \<and> faults w1 = faults w
     \<and> (\<forall>q. files w q \<noteq> None \<longrightarrow> files w1 q \<noteq> None)"
  by (auto simp: recordSnapshot_def createSnapshot_def os_Create_def File_Write_def
      File_Close_def Let_def
      split: option.splits if_splits prod.splits)

text \<open>The package-level \<^verbatim>\<open>Assert\<close> on a byte slice asserts those bytes as they are.\<close>

lemma Assert_ByteSlice:
  "New L w [] = Inr c \<Longrightarrow>
   Assert L Fdump name (ByteSlice bs) w = Config_Assert L c name bs w"
  by (simp add: Assert_def)

text \<open>
  With update mode off an assertion writes only on the path of a first run: the
  directory is there and the snapshot could not be read.
\<close>

lemma Config_Assert_world:
  "\<not> isUpdateable w \<Longrightarrow>
     snd (Config_Assert L c name b w) = w
     \<or> (\<not> os_IsNotExist (os_Stat w (Directory c))
        \<and> (\<exists>err. readSnapshot L name (Directory c) (Extension c) w = Inl err)
        \<and> Config_Assert L c name b w = recordSnapshot L c name b w)"
  by (auto simp: Config_Assert_def Let_def split: sum.splits option.splits)

text \<open>
  Two assertions of the same bytes in a row, update mode off: the second leaves the
  world as the first left it, and it passes when the first passed.
\<close>

lemma Config_Assert_twice:
  assumes off: "\<not> isUpdateable w" and first: "Config_Assert L c name b w = (r, w1)"
  shows "snd (Config_Assert L c name b w1) = w1
         \<and> (r = Pass \<longrightarrow> Config_Assert L c name b w1 = (Pass, w1))"
proof -
  from Config_Assert_world [OF off, of L c name b]
  show ?thesis
  proof
    assume "snd (Config_Assert L c name b w) = w"
    with first have "w1 = w" by simp
    with first show ?thesis by simp
  next
    assume rec: "\<not> os_IsNotExist (os_Stat w (Directory c))
        \<and> (\<exists>err. readSnapshot L name (Directory c) (Extension c) w = Inl err)
        \<and> Config_Assert L c name b w = recordSnapshot L c name b w"
    with first have r1: "recordSnapshot L c name b w = (r, w1)" by simp
    note keeps = recordSnapshot_keeps [OF r1]
    have off1: "\<not> isUpdateable w1"
      using off keeps by (simp add: isUpdateable_def os_LookupEnv_def)
    have st1: "\<not> os_IsNotExist (os_Stat w1 (Directory c))"
      using rec keeps by (auto simp: os_Stat_def split: if_splits option.splits)
    show ?thesis
    proof (cases "readSnapshot L name (Directory c) (Extension c) w1")
      case (Inl err)
      then have "Config_Assert L c name b w1 = recordSnapshot L c name b w1"
        using st1 by (simp add: Config_Assert_def)
      with recordSnapshot_again [OF r1] show ?thesis by simp
    next
      case (Inr e)
      with Config_Assert_world [OF off1, of L c name b]
      have same: "snd (Config_Assert L c name b w1) = w1" by auto
      have "Config_Assert L c name b w1 = (Pass, w1)" if "r = Pass"
      proof -
        from r1 that have "w1 = w\<lparr>files := (files w)(snapshotPath L c name \<mapsto> b)\<rparr>"
          by (simp add: recordSnapshot_Pass)
        then have "files w1 (snapshotPath L c name) = Some b" by simp
        with Inr have "e = b" by (simp add: readSnapshot_Inr)
        with Inr st1 show ?thesis by (simp add: Config_Assert_def)
      qed
      with same show ?thesis by simp
    qed
  qed
qed

text \<open>The mismatch branch: the directory is there and the stored bytes differ.\<close>

lemma Config_Assert_mismatch:
  assumes "Directory c \<in> dirs w"
      and "files w (snapshotPath L c name) = Some e"
      and "readable w (snapshotPath L c name)"
      and "e \<noteq> b"
  shows "Config_Assert L c name b w =
     (if isUpdateable w then recordSnapshot L c name b w
      else if Diffable c then
        (case getDiff L e b (Context c) of
           Inl err \<Rightarrow>
             (Fatal (''Unable to compare snapshot to test output: '' @ Error err), w)
         | Inr diff \<Rightarrow>
             (case ignore c of
                None \<Rightarrow>
                  (Fatal (''Snapshot test failed for: '' @ name @ ''.  Diff:''
                          @ [CHR 0x0A, CHR 0x0A] @ diff), w)
              | Some re \<Rightarrow>
                  (case re diff of
                     Some m \<Rightarrow> (Pass, w)
                   | None \<Rightarrow>
                       (Fatal (''Snapshot test failed for: '' @ name @ ''.  Diff:''
                               @ [CHR 0x0A, CHR 0x0A] @ diff), w))))
      else (Fatal (''Snapshot test failed for: '' @ name
                   @ ''.  Diff: (undiffable binary format)''), w))"
proof -
  from assms have "readSnapshot L name (Directory c) (Extension c) w = Inr e"
    by (simp add: readSnapshot_Inr)
  with assms show ?thesis
    by (simp add: Config_Assert_def Stat_present Let_def split: sum.splits option.splits)
qed

text \<open>The closed instances below use these evaluations.\<close>

lemma example_path:
  "snapshotPath example_Lib example_Config ''TestX'' = ''/w/__snapshots__/testx.snap''"
  by code_simp

lemma example_readable: "readable example_World ''/w/__snapshots__/testx.snap''"
  by (simp add: readable_def example_World_def)

lemma example_writable: "writable example_World ''/w/__snapshots__/testx.snap''"
  by (simp add: writable_def example_World_def)

lemma example_stored: "files example_World ''/w/__snapshots__/testx.snap'' = Some ''abc''"
  by (simp add: example_World_def)

lemma example_dir: "Directory example_Config \<in> dirs example_World"
  by (simp add: example_World_def example_Config_def)

lemma example_off: "\<not> isUpdateable example_World"
  by (simp add: isUpdateable_def os_LookupEnv_def example_World_def)

subsection \<open>Equal bytes and repeated assertions\<close>

text \<open>
  Claim C1. When the snapshot directory is there and the snapshot file holds exactly
  the asserted bytes, the assertion passes and leaves the world as it is, in either
  update mode; asserting again then does the same. More generally, with update mode
  off the second of two assertions of the same bytes in a row changes nothing of
  what the first left (the stored snapshot in particular), and it passes when the
  first passed.
\<close>

theorem Assert_equal_idempotent:
  "(Directory c \<in> dirs w \<and> files w (snapshotPath L c name) = Some b
      \<and> readable w (snapshotPath L c name) \<longrightarrow>
    Config_Assert L c name b w = (Pass, w)
    \<and> Config_Assert L c name b (snd (Config_Assert L c name b w)) = (Pass, w))
   \<and> (\<not> isUpdateable w \<and> Config_Assert L c name b w = (r, w1) \<longrightarrow>
      snd (Config_Assert L c name b w1) = w1
      \<and> (r = Pass \<longrightarrow> Config_Assert L c name b w1 = (Pass, w1)))"
proof (intro conjI impI)
  assume present: "Directory c \<in> dirs w \<and> files w (snapshotPath L c name) = Some b
      \<and> readable w (snapshotPath L c name)"
  then have "readSnapshot L name (Directory c) (Extension c) w = Inr b"
    by (simp add: readSnapshot_Inr)
  with present show once: "Config_Assert L c name b w = (Pass, w)"
    by (simp add: Config_Assert_def Stat_present)
  then show "Config_Assert L c name b (snd (Config_Assert L c name b w)) = (Pass, w)"
    by simp
next
  assume "\<not> isUpdateable w \<and> Config_Assert L c name b w = (r, w1)"
  then show "snd (Config_Assert L c name b w1) = w1"
    using Config_Assert_twice [of w L c name b r w1] by simp
next
  assume "\<not> isUpdateable w \<and> Config_Assert L c name b w = (r, w1)" and "r = Pass"
  then show "Config_Assert L c name b w1 = (Pass, w1)"
    using Config_Assert_twice [of w L c name b r w1] by simp
qed

theorem Assert_equal_idempotent_witness:
  "Config_Assert example_Lib example_Config ''TestX'' ''abc'' example_World
     = (Pass, example_World)
   \<and> Config_Assert example_Lib example_Config ''TestX'' ''abc''
       (snd (Config_Assert example_Lib example_Config ''TestX'' ''abc'' example_World))
     = (Pass, example_World)"
  using Assert_equal_idempotent
          [of example_Config example_World example_Lib "''TestX''" "''abc''" Pass example_World]
  by (simp add: example_path example_dir example_stored example_readable example_off)

subsection \<open>First run\<close>

text \<open>
  Claim C2. The snapshot directory is there, no snapshot file exists for the test,
  and the system lets the file be written. One assertion of the bytes \<open>B\<close> passes
  and creates exactly one new file, the snapshot, holding exactly \<open>B\<close>; nothing else
  changes. A second assertion of \<open>B\<close> passes as well and leaves that world as it is.
\<close>

theorem Assert_first_run_roundtrip:
  assumes "Directory c \<in> dirs w"
      and "files w (snapshotPath L c name) = None"
      and "writable w (snapshotPath L c name)"
  shows "Config_Assert L c name B w =
           (Pass, w\<lparr>files := (files w)(snapshotPath L c name \<mapsto> B)\<rparr>)
       \<and> dom (files (snd (Config_Assert L c name B w))) - dom (files w)
           = {snapshotPath L c name}
       \<and> files (snd (Config_Assert L c name B w)) (snapshotPath L c name) = Some B
       \<and> Config_Assert L c name B (snd (Config_Assert L c name B w)) =
           (Pass, w\<lparr>files := (files w)(snapshotPath L c name \<mapsto> B)\<rparr>)"
proof -
  let ?p = "snapshotPath L c name"
  let ?w1 = "w\<lparr>files := (files w)(?p \<mapsto> B)\<rparr>"
  from assms(2) obtain err
    where "readSnapshot L name (Directory c) (Extension c) w = Inl err"
    using readSnapshot_absent by blast
  with assms(1) have "Config_Assert L c name B w = recordSnapshot L c name B w"
    by (simp add: Config_Assert_def Stat_present)
  with assms(3) have first: "Config_Assert L c name B w = (Pass, ?w1)"
    by (simp add: recordSnapshot_writable)
  have newfile: "dom (files ?w1) - dom (files w) = {?p}"
    using assms(2) by auto
  have dir1: "\<not> os_IsNotExist (os_Stat ?w1 (Directory c))"
    using assms(1) by (simp add: os_Stat_def)
  have wr1: "writable ?w1 ?p"
    using assms(3) by (simp add: writable_def)
  have again: "recordSnapshot L c name B ?w1 = (Pass, ?w1)"
    using recordSnapshot_writable [OF wr1, of B] by simp
  have second: "Config_Assert L c name B ?w1 = (Pass, ?w1)"
  proof (cases "readSnapshot L name (Directory c) (Extension c) ?w1")
    case (Inl e)
    with dir1 again show ?thesis by (simp add: Config_Assert_def)
  next
    case (Inr e)
    then have "e = B" by (simp add: readSnapshot_Inr)
    with Inr dir1 show ?thesis by (simp add: Config_Assert_def)
  qed
  from first newfile second show ?thesis by simp
qed

theorem Assert_first_run_roundtrip_witness:
  "Config_Assert example_Lib example_Config ''TestX'' ''xyz''
       (example_World\<lparr>files := Map.empty\<rparr>)
     = (Pass, example_World\<lparr>files := [''/w/__snapshots__/testx.snap'' \<mapsto> ''xyz'']\<rparr>)
   \<and> Config_Assert example_Lib example_Config ''TestX'' ''xyz''
       (example_World\<lparr>files := [''/w/__snapshots__/testx.snap'' \<mapsto> ''xyz'']\<rparr>)
     = (Pass, example_World\<lparr>files := [''/w/__snapshots__/testx.snap'' \<mapsto> ''xyz'']\<rparr>)"
proof -
  let ?w = "example_World\<lparr>files := Map.empty\<rparr>"
  have dir: "Directory example_Config \<in> dirs ?w"
    using example_dir by simp
  have absent: "files ?w (snapshotPath example_Lib example_Config ''TestX'') = None"
    by simp
  have wr: "writable ?w (snapshotPath example_Lib example_Config ''TestX'')"
    using example_writable by (simp add: writable_def example_path)
  note roundtrip = Assert_first_run_roundtrip [OF dir absent wr, of "''xyz''"]
  have first: "Config_Assert example_Lib example_Config ''TestX'' ''xyz'' ?w
     = (Pass, example_World\<lparr>files := [''/w/__snapshots__/testx.snap'' \<mapsto> ''xyz'']\<rparr>)"
    using roundtrip [THEN conjunct1] by (simp add: example_path)
  have "Config_Assert example_Lib example_Config ''TestX'' ''xyz''
          (snd (Config_Assert example_Lib example_Config ''TestX'' ''xyz'' ?w))
     = (Pass, example_World\<lparr>files := [''/w/__snapshots__/testx.snap'' \<mapsto> ''xyz'']\<rparr>)"
    using roundtrip [THEN conjunct2, THEN conjunct2, THEN conjunct2]
    by (simp add: example_path)
  then have second: "Config_Assert example_Lib example_Config ''TestX'' ''xyz''
          (example_World\<lparr>files := [''/w/__snapshots__/testx.snap'' \<mapsto> ''xyz'']\<rparr>)
     = (Pass, example_World\<lparr>files := [''/w/__snapshots__/testx.snap'' \<mapsto> ''xyz'']\<rparr>)"
    by (simp add: first)
  from first second show ?thesis by simp
qed

subsection \<open>Update mode overwrites\<close>

text \<open>
  Claim C3. The snapshot is there with stored bytes that differ from the asserted
  ones, update mode is on, and the system lets the file be written. The assertion
  passes, and afterwards the snapshot file holds exactly the asserted bytes; nothing
  else changes.
\<close>

theorem Assert_update_overwrites:
  assumes "Directory c \<in> dirs w"
      and "files w (snapshotPath L c name) = Some e"
      and "readable w (snapshotPath L c name)"
      and "e \<noteq> b"
      and "isUpdateable w"
      and "writable w (snapshotPath L c name)"
  shows "Config_Assert L c name b w =
           (Pass, w\<lparr>files := (files w)(snapshotPath L c name \<mapsto> b)\<rparr>)
       \<and> files (snd (Config_Assert L c name b w)) (snapshotPath L c name) = Some b"
proof -
  have "Config_Assert L c name b w = recordSnapshot L c name b w"
    using assms(5) by (simp add: Config_Assert_mismatch [OF assms(1-4)])
  with assms(6) show ?thesis by (simp add: recordSnapshot_writable)
qed

theorem Assert_update_overwrites_witness:
  "Config_Assert example_Lib example_Config ''TestX'' ''abd''
       (example_World\<lparr>environ := [''UPDATE_SNAPSHOTS'' \<mapsto> ''true'']\<rparr>)
     = (Pass, example_World\<lparr>environ := [''UPDATE_SNAPSHOTS'' \<mapsto> ''true''],
                             files := [''/w/__snapshots__/testx.snap'' \<mapsto> ''abd'']\<rparr>)"
proof -
  let ?w = "example_World\<lparr>environ := [''UPDATE_SNAPSHOTS'' \<mapsto> ''true'']\<rparr>"
  let ?p = "snapshotPath example_Lib example_Config ''TestX''"
  have dir: "Directory example_Config \<in> dirs ?w"
    using example_dir by simp
  have stored: "files ?w ?p = Some ''abc''"
    using example_stored by (simp add: example_path)
  have rd: "readable ?w ?p"
    using example_readable by (simp add: readable_def example_path)
  have ne: "''abc'' \<noteq> ''abd''"
    by simp
  have on: "isUpdateable ?w"
    by (simp add: isUpdateable_def os_LookupEnv_def)
  have wr: "writable ?w ?p"
    using example_writable by (simp add: writable_def example_path)
  show ?thesis
    using Assert_update_overwrites [OF dir stored rd ne on wr]
    by (simp add: example_path example_World_def)
qed

subsection \<open>Mismatches with update mode off\<close>

lemma example_diff:
  "getDiff example_Lib ''abc'' ''abd'' 10 = Inr ''--- Expected +++ Received -abc+abd''"
  by (simp add: getDiff_def example_Lib_def)

lemma example_match:
  "literal_FindStringIndex ''+abd'' 0 ''--- Expected +++ Received -abc+abd'' = Some (30, 34)"
  by code_simp

lemma example_no_match:
  "literal_FindStringIndex ''date'' 0 ''--- Expected +++ Received -abc+abd'' = None"
  by code_simp

text \<open>
  Claim C4. Update mode is off, the output is diffable, an ignore pattern is
  configured, the stored bytes differ from the asserted ones, and the diff library
  returns the diff text. The assertion passes exactly when the pattern matches
  somewhere in that text; it never writes; and when the pattern does not match, it
  fails with the message that ends in the diff text.
\<close>

theorem Assert_ignore_pattern:
  assumes "Directory c \<in> dirs w"
      and "files w (snapshotPath L c name) = Some e"
      and "readable w (snapshotPath L c name)"
      and "e \<noteq> b"
      and "\<not> isUpdateable w"
      and "Diffable c"
      and "ignore c = Some re"
      and "getDiff L e b (Context c) = Inr diff"
  shows "(fst (Config_Assert L c name b w) = Pass \<longleftrightarrow> re diff \<noteq> None)
       \<and> snd (Config_Assert L c name b w) = w
       \<and> (re diff = None \<longrightarrow>
            Config_Assert L c name b w =
              (Fatal (''Snapshot test failed for: '' @ name @ ''.  Diff:''
                      @ [CHR 0x0A, CHR 0x0A] @ diff), w))"
proof (cases "re diff")
  case None
  with assms(5-8) show ?thesis
    by (simp add: Config_Assert_mismatch [OF assms(1-4)])
next
  case (Some m)
  with assms(5-8) show ?thesis
    by (simp add: Config_Assert_mismatch [OF assms(1-4)])
qed

theorem Assert_ignore_pattern_witness:
  "Config_Assert example_Lib
       (example_Config\<lparr>ignore := Some (literal_FindStringIndex ''+abd'' 0)\<rparr>)
       ''TestX'' ''abd'' example_World
     = (Pass, example_World)
   \<and> Config_Assert example_Lib
       (example_Config\<lparr>ignore := Some (literal_FindStringIndex ''date'' 0)\<rparr>)
       ''TestX'' ''abd'' example_World
     = (Fatal (''Snapshot test failed for: TestX.  Diff:'' @ [CHR 0x0A, CHR 0x0A]
               @ ''--- Expected +++ Received -abc+abd''), example_World)"
proof -
  let ?diff = "''--- Expected +++ Received -abc+abd''"
  have at: "(fst (Config_Assert example_Lib (example_Config\<lparr>ignore := Some r\<rparr>)
                    ''TestX'' ''abd'' example_World) = Pass \<longleftrightarrow> r ?diff \<noteq> None)
       \<and> snd (Config_Assert example_Lib (example_Config\<lparr>ignore := Some r\<rparr>)
                ''TestX'' ''abd'' example_World) = example_World
       \<and> (r ?diff = None \<longrightarrow>
            Config_Assert example_Lib (example_Config\<lparr>ignore := Some r\<rparr>)
              ''TestX'' ''abd'' example_World =
              (Fatal (''Snapshot test failed for: '' @ ''TestX'' @ ''.  Diff:''
                      @ [CHR 0x0A, CHR 0x0A] @ ?diff), example_World))" for r
  proof -
    let ?c = "example_Config\<lparr>ignore := Some r\<rparr>"
    have path: "snapshotPath example_Lib ?c ''TestX'' = ''/w/__snapshots__/testx.snap''"
      using example_path by (simp add: snapshotPath_def)
    have dir: "Directory ?c \<in> dirs example_World"
      using example_dir by simp
    have stored: "files example_World (snapshotPath example_Lib ?c ''TestX'') = Some ''abc''"
      by (simp add: path example_stored)
    have rd: "readable example_World (snapshotPath example_Lib ?c ''TestX'')"
      by (simp add: path example_readable)
    have ne: "''abc'' \<noteq> ''abd''"
      by simp
    have diffable: "Diffable ?c"
      by (simp add: example_Config_def)
    have ign: "ignore ?c = Some r"
      by simp
    have diff: "getDiff example_Lib ''abc'' ''abd'' (Context ?c) = Inr ?diff"
      using example_diff by (simp add: example_Config_def)
    show ?thesis
      by (rule Assert_ignore_pattern [OF dir stored rd ne example_off diffable ign diff])
  qed
  have pass: "Config_Assert example_Lib
       (example_Config\<lparr>ignore := Some (literal_FindStringIndex ''+abd'' 0)\<rparr>)
       ''TestX'' ''abd'' example_World = (Pass, example_World)"
    using at [of "literal_FindStringIndex ''+abd'' 0"]
    by (simp add: example_match prod_eq_iff)
  have fail: "Config_Assert example_Lib
       (example_Config\<lparr>ignore := Some (literal_FindStringIndex ''date'' 0)\<rparr>)
       ''TestX'' ''abd'' example_World
     = (Fatal (''Snapshot test failed for: TestX.  Diff:'' @ [CHR 0x0A, CHR 0x0A]
               @ ''--- Expected +++ Received -abc+abd''), example_World)"
    using at [of "literal_FindStringIndex ''date'' 0"]
    by (simp add: example_no_match)
  from pass fail show ?thesis by simp
qed

text \<open>
  Claim C6. Update mode is off, the output is not diffable, and the stored bytes
  differ from the asserted ones. The assertion fails with the message for an
  undiffable binary format and changes nothing; the diff library plays no part:
  with any other line splitter and diff function the result is the same.
\<close>

theorem Assert_undiffable_mismatch:
  assumes "Directory c \<in> dirs w"
      and "files w (snapshotPath L c name) = Some e"
      and "readable w (snapshotPath L c name)"
      and "e \<noteq> b"
      and "\<not> isUpdateable w"
      and "\<not> Diffable c"
  shows "Config_Assert L c name b w =
           (Fatal (''Snapshot test failed for: '' @ name
                   @ ''.  Diff: (undiffable binary format)''), w)
       \<and> Config_Assert
            (L\<lparr>difflib_SplitLines := splitter, difflib_GetUnifiedDiffString := differ\<rparr>)
            c name b w
           = Config_Assert L c name b w"
proof -
  let ?L = "L\<lparr>difflib_SplitLines := splitter, difflib_GetUnifiedDiffString := differ\<rparr>"
  have same_path: "snapshotPath ?L c name = snapshotPath L c name"
    by (simp add: snapshotPath_def getSnapFilename_def strings_ToLower_def)
  have here: "Config_Assert L c name b w =
           (Fatal (''Snapshot test failed for: '' @ name
                   @ ''.  Diff: (undiffable binary format)''), w)"
    using assms(5,6) by (simp add: Config_Assert_mismatch [OF assms(1-4)])
  have there: "Config_Assert ?L c name b w =
           (Fatal (''Snapshot test failed for: '' @ name
                   @ ''.  Diff: (undiffable binary format)''), w)"
    using assms(5,6) Config_Assert_mismatch [of c w ?L name e b]
    by (simp add: same_path assms(1-4))
  from here there show ?thesis by simp
qed

theorem Assert_undiffable_mismatch_witness:
  "Config_Assert example_Lib (example_Config\<lparr>Diffable := False\<rparr>)
       ''TestX'' ''abd'' example_World
     = (Fatal ''Snapshot test failed for: TestX.  Diff: (undiffable binary format)'',
        example_World)"
proof -
  let ?c = "example_Config\<lparr>Diffable := False\<rparr>"
  have path: "snapshotPath example_Lib ?c ''TestX'' = ''/w/__snapshots__/testx.snap''"
    using example_path by (simp add: snapshotPath_def)
  have dir: "Directory ?c \<in> dirs example_World"
    using example_dir by simp
  have stored: "files example_World (snapshotPath example_Lib ?c ''TestX'') = Some ''abc''"
    by (simp add: path example_stored)
  have rd: "readable example_World (snapshotPath example_Lib ?c ''TestX'')"
    by (simp add: path example_readable)
  have ne: "''abc'' \<noteq> ''abd''"
    by simp
  have undiffable: "\<not> Diffable ?c"
    by simp
  show ?thesis
    using Assert_undiffable_mismatch [OF dir stored rd ne example_off undiffable]
    by simp
qed

text \<open>
  Claim C10. Update mode is off, the stored bytes differ from the asserted ones,
  and the configured ignore pattern matches the diff text of the two. With
  \<^verbatim>\<open>Diffable\<close> false the assertion fails all the same, whatever the ignore pattern
  is, with the message for an undiffable binary format; with \<^verbatim>\<open>Diffable\<close> true
  the same configuration passes.
\<close>

theorem Assert_undiffable_skips_ignore:
  assumes "Directory c \<in> dirs w"
      and "files w (snapshotPath L c name) = Some e"
      and "readable w (snapshotPath L c name)"
      and "e \<noteq> b"
      and "\<not> isUpdateable w"
      and "ignore c = Some re"
      and "getDiff L e b (Context c) = Inr diff"
      and "re diff \<noteq> None"
  shows "Config_Assert L (c\<lparr>Diffable := False\<rparr>) name b w =
           (Fatal (''Snapshot test failed for: '' @ name
                   @ ''.  Diff: (undiffable binary format)''), w)
       \<and> Config_Assert L (c\<lparr>Diffable := False, ignore := ig\<rparr>) name b w =
           Config_Assert L (c\<lparr>Diffable := False\<rparr>) name b w
       \<and> Config_Assert L (c\<lparr>Diffable := True\<rparr>) name b w = (Pass, w)"
proof -
  have path: "snapshotPath L (c\<lparr>Diffable := d, ignore := i\<rparr>) name = snapshotPath L c name"
    for d i
    by (simp add: snapshotPath_def)
  have path': "snapshotPath L (c\<lparr>Diffable := d\<rparr>) name = snapshotPath L c name" for d
    by (simp add: snapshotPath_def)
  have off: "Config_Assert L (c\<lparr>Diffable := False\<rparr>) name b w =
           (Fatal (''Snapshot test failed for: '' @ name
                   @ ''.  Diff: (undiffable binary format)''), w)"
    using assms(5) Config_Assert_mismatch [of "c\<lparr>Diffable := False\<rparr>" w L name e b]
    by (simp add: path' assms(1-4))
  have any: "Config_Assert L (c\<lparr>Diffable := False, ignore := ig\<rparr>) name b w =
           (Fatal (''Snapshot test failed for: '' @ name
                   @ ''.  Diff: (undiffable binary format)''), w)"
    using assms(5)
      Config_Assert_mismatch [of "c\<lparr>Diffable := False, ignore := ig\<rparr>" w L name e b]
    by (simp add: path assms(1-4))
  have on: "Config_Assert L (c\<lparr>Diffable := True\<rparr>) name b w = (Pass, w)"
    using assms(5-8) Config_Assert_mismatch [of "c\<lparr>Diffable := True\<rparr>" w L name e b]
    by (auto simp add: path' assms(1-4))
  from off any on show ?thesis by simp
qed

theorem Assert_undiffable_skips_ignore_witness:
  "literal_FindStringIndex ''+abd'' 0 ''--- Expected +++ Received -abc+abd'' \<noteq> None
   \<and> Config_Assert example_Lib
       (example_Config\<lparr>ignore := Some (literal_FindStringIndex ''+abd'' 0),
                        Diffable := False\<rparr>)
       ''TestX'' ''abd'' example_World
     = (Fatal ''Snapshot test failed for: TestX.  Diff: (undiffable binary format)'',
        example_World)"
proof -
  let ?c = "example_Config\<lparr>ignore := Some (literal_FindStringIndex ''+abd'' 0)\<rparr>"
  have path: "snapshotPath example_Lib ?c ''TestX'' = ''/w/__snapshots__/testx.snap''"
    using example_path by (simp add: snapshotPath_def)
  have dir: "Directory ?c \<in> dirs example_World"
    using example_dir by simp
  have stored: "files example_World (snapshotPath example_Lib ?c ''TestX'') = Some ''abc''"
    by (simp add: path example_stored)
  have rd: "readable example_World (snapshotPath example_Lib ?c ''TestX'')"
    by (simp add: path example_readable)
  have ne: "''abc'' \<noteq> ''abd''"
    by simp
  have ign: "ignore ?c = Some (literal_FindStringIndex ''+abd'' 0)"
    by simp
  have diff: "getDiff example_Lib ''abc'' ''abd'' (Context ?c)
                = Inr ''--- Expected +++ Received -abc+abd''"
    using example_diff by (simp add: example_Config_def)
  have matches:
    "literal_FindStringIndex ''+abd'' 0 ''--- Expected +++ Received -abc+abd'' \<noteq> None"
    by (simp add: example_match)
  show ?thesis
    using Assert_undiffable_skips_ignore
            [OF dir stored rd ne example_off ign diff matches, THEN conjunct1] matches
    by simp
qed

subsection \<open>No snapshot directory\<close>

lemma set_path_parents:
  "set (path_parents p) = {take i p |i. 0 < i \<and> i < length p \<and> p ! i = CHR ''/''}"
proof
  show "set (path_parents p) \<subseteq> {take i p |i. 0 < i \<and> i < length p \<and> p ! i = CHR ''/''}"
    by (auto simp: path_parents_def)
  show "{take i p |i. 0 < i \<and> i < length p \<and> p ! i = CHR ''/''} \<subseteq> set (path_parents p)"
  proof
    fix q
    assume "q \<in> {take i p |i. 0 < i \<and> i < length p \<and> p ! i = CHR ''/''}"
    then obtain i where "q = take i p" and "0 < i" and "i < length p" and "p ! i = CHR ''/''"
      by blast
    then have "i \<in> {Suc 0..<length p} \<inter> {x. p ! x = CHR ''/''}"
      by simp
    with \<open>q = take i p\<close> show "q \<in> set (path_parents p)"
      by (auto simp: path_parents_def)
  qed
qed

text \<open>
  When \<^verbatim>\<open>os.Stat\<close> fails with another error (the path lies under a regular file,
  say), the program does not take the missing-directory branch: it goes on to read
  the snapshot and, that failing, to create it.
\<close>

lemma Config_Assert_stat_other_error:
  assumes "os_Stat w (Directory c) = Some (ErrOther msg)"
      and "faults w (OpRead, snapshotPath L c name) = Some err"
      and "faults w (OpCreate, snapshotPath L c name) = Some e"
  shows "Config_Assert L c name b w = (Fatal (''Unable to create snapshot: '' @ Error e), w)"
  using assms
  by (simp add: Config_Assert_def readSnapshot_def ioutil_ReadFile_def recordSnapshot_def
      createSnapshot_def os_Create_def snapshotPath_def)

text \<open>
  An instance: \<^verbatim>\<open>/w/f\<close> is a regular file and the configured directory is
  \<^verbatim>\<open>/w/f/snaps\<close>, so that the system answers every operation below \<^verbatim>\<open>/w/f\<close>
  with a not-a-directory error. The assertion fails on creating the snapshot, in
  either update mode, and not for a missing directory.
\<close>

lemma Config_Assert_under_regular_file:
  "Config_Assert example_Lib (example_Config\<lparr>Directory := ''/w/f/snaps''\<rparr>) ''TestX'' ''abc''
     (fresh_World
        \<lparr>files := [''/w/f'' \<mapsto> ''x''],
         environ := env,
         faults :=
           [(OpStat, ''/w/f/snaps'') \<mapsto> ErrOther ''stat /w/f/snaps: not a directory'',
            (OpMkdir, ''/w/f/snaps'') \<mapsto> ErrOther ''mkdir /w/f: not a directory'',
            (OpRead, ''/w/f/snaps/testx.snap'')
              \<mapsto> ErrOther ''open /w/f/snaps/testx.snap: not a directory'',
            (OpCreate, ''/w/f/snaps/testx.snap'')
              \<mapsto> ErrOther ''open /w/f/snaps/testx.snap: not a directory'']\<rparr>)
   = (Fatal ''Unable to create snapshot: open /w/f/snaps/testx.snap: not a directory'',
      fresh_World
        \<lparr>files := [''/w/f'' \<mapsto> ''x''],
         environ := env,
         faults :=
           [(OpStat, ''/w/f/snaps'') \<mapsto> ErrOther ''stat /w/f/snaps: not a directory'',
            (OpMkdir, ''/w/f/snaps'') \<mapsto> ErrOther ''mkdir /w/f: not a directory'',
            (OpRead, ''/w/f/snaps/testx.snap'')
              \<mapsto> ErrOther ''open /w/f/snaps/testx.snap: not a directory'',
            (OpCreate, ''/w/f/snaps/testx.snap'')
              \<mapsto> ErrOther ''open /w/f/snaps/testx.snap: not a directory'']\<rparr>)"
proof -
  have path: "snapshotPath example_Lib (example_Config\<lparr>Directory := ''/w/f/snaps''\<rparr>) ''TestX''
                = ''/w/f/snaps/testx.snap''"
    by code_simp
  show ?thesis
    by (rule Config_Assert_stat_other_error
              [where msg = "''stat /w/f/snaps: not a directory''"
                 and err = "ErrOther ''open /w/f/snaps/testx.snap: not a directory''"
                 and e = "ErrOther ''open /w/f/snaps/testx.snap: not a directory''",
               simplified])
       (simp_all add: path os_Stat_def fresh_World_def)
qed

text \<open>
  Claim C5. The configured directory does not exist: \<^verbatim>\<open>os.Stat\<close> on its path
  fails with a not-exist error. With update mode on, and the system letting the
  directory be made and then the snapshot file be written, the assertion passes;
  afterwards the directories are those there before, the configured directory and
  each of its parents (the part of its path before each inner slash), and the
  snapshot file holds the asserted bytes. With update mode off the assertion fails
  with the message that no snapshot directory exists and updates are disabled, and
  creates neither directory nor file: the world is unchanged.
\<close>

theorem Assert_missing_directory:
  assumes "os_IsNotExist (os_Stat w (Directory c))"
  shows "(isUpdateable w \<and> faults w (OpMkdir, Directory c) = None
          \<and> writable (w\<lparr>dirs := dirs w \<union> set (path_parents (Directory c)) \<union> {Directory c}\<rparr>)
                (snapshotPath L c name) \<longrightarrow>
          Config_Assert L c name b w =
            (Pass, w\<lparr>dirs := dirs w \<union> set (path_parents (Directory c)) \<union> {Directory c},
                     files := (files w)(snapshotPath L c name \<mapsto> b)\<rparr>)
          \<and> dirs (snd (Config_Assert L c name b w)) =
              dirs w \<union> {Directory c}
              \<union> {take i (Directory c) |i.
                   0 < i \<and> i < length (Directory c) \<and> Directory c ! i = CHR ''/''}
          \<and> files (snd (Config_Assert L c name b w)) =
              (files w)(snapshotPath L c name \<mapsto> b))
       \<and> (\<not> isUpdateable w \<longrightarrow>
          Config_Assert L c name b w =
            (Fatal ''No snapshot directory exists and UPDATE_SNAPSHOTS=false.  Failing.'', w))"
proof (intro conjI impI)
  assume "\<not> isUpdateable w"
  with assms show "Config_Assert L c name b w =
      (Fatal ''No snapshot directory exists and UPDATE_SNAPSHOTS=false.  Failing.'', w)"
    by (simp add: Config_Assert_def)
next
  let ?w1 = "w\<lparr>dirs := dirs w \<union> set (path_parents (Directory c)) \<union> {Directory c}\<rparr>"
  let ?w2 = "w\<lparr>dirs := dirs w \<union> set (path_parents (Directory c)) \<union> {Directory c},
               files := (files w)(snapshotPath L c name \<mapsto> b)\<rparr>"
  assume on: "isUpdateable w \<and> faults w (OpMkdir, Directory c) = None
              \<and> writable ?w1 (snapshotPath L c name)"
  from Stat_not_exist [OF assms] on have mk: "os_MkdirAll w (Directory c) = (None, ?w1)"
    by (simp add: os_MkdirAll_def)
  from on have "recordSnapshot L c name b ?w1 =
      (Pass, ?w1\<lparr>files := (files ?w1)(snapshotPath L c name \<mapsto> b)\<rparr>)"
    by (simp add: recordSnapshot_writable)
  with assms on mk show result: "Config_Assert L c name b w = (Pass, ?w2)"
    by (simp add: Config_Assert_def)
  show "dirs (snd (Config_Assert L c name b w)) =
          dirs w \<union> {Directory c}
          \<union> {take i (Directory c) |i.
               0 < i \<and> i < length (Directory c) \<and> Directory c ! i = CHR ''/''}"
    unfolding result by (simp add: set_path_parents Un_commute Un_left_commute)
  show "files (snd (Config_Assert L c name b w)) = (files w)(snapshotPath L c name \<mapsto> b)"
    unfolding result by simp
qed

lemma example_Directory: "Directory example_Config = ''/w/__snapshots__''"
  by (simp add: example_Config_def)

lemma example_parents: "path_parents ''/w/__snapshots__'' = [''/w'']"
  by code_simp

text \<open>
  In the first instance no directory exists at all, so that the parent \<^verbatim>\<open>/w\<close> is
  made along with the snapshot directory.
\<close>

theorem Assert_missing_directory_witness:
  "Config_Assert example_Lib example_Config ''TestX'' ''abc''
       (fresh_World\<lparr>environ := [''UPDATE_SNAPSHOTS'' \<mapsto> ''1''], dirs := {}\<rparr>)
     = (Pass, fresh_World\<lparr>environ := [''UPDATE_SNAPSHOTS'' \<mapsto> ''1''],
                           dirs := {''/w'', ''/w/__snapshots__''},
                           files := [''/w/__snapshots__/testx.snap'' \<mapsto> ''abc'']\<rparr>)
   \<and> Config_Assert example_Lib example_Config ''TestX'' ''abc'' fresh_World
     = (Fatal ''No snapshot directory exists and UPDATE_SNAPSHOTS=false.  Failing.'',
        fresh_World)"
proof -
  let ?on = "fresh_World\<lparr>environ := [''UPDATE_SNAPSHOTS'' \<mapsto> ''1''], dirs := {}\<rparr>"
  have nodir_on: "os_IsNotExist (os_Stat ?on (Directory example_Config))"
    by (simp add: os_Stat_def fresh_World_def)
  have nodir_off: "os_IsNotExist (os_Stat fresh_World (Directory example_Config))"
    by (simp add: os_Stat_def fresh_World_def example_Directory)
  have "Config_Assert example_Lib example_Config ''TestX'' ''abc'' ?on
     = (Pass, ?on\<lparr>dirs := dirs ?on \<union> set (path_parents (Directory example_Config))
                           \<union> {Directory example_Config},
                   files := (files ?on)(snapshotPath example_Lib example_Config ''TestX''
                               \<mapsto> ''abc'')\<rparr>)"
    using Assert_missing_directory
            [OF nodir_on, of example_Lib "''TestX''" "''abc''", THEN conjunct1]
    by (simp add: isUpdateable_def os_LookupEnv_def writable_def example_path
                  fresh_World_def example_Directory example_parents)
  then have on: "Config_Assert example_Lib example_Config ''TestX'' ''abc'' ?on
     = (Pass, fresh_World\<lparr>environ := [''UPDATE_SNAPSHOTS'' \<mapsto> ''1''],
                           dirs := {''/w'', ''/w/__snapshots__''},
                           files := [''/w/__snapshots__/testx.snap'' \<mapsto> ''abc'']\<rparr>)"
    by (simp add: example_path example_parents fresh_World_def example_Directory
                  insert_commute)
  have off: "Config_Assert example_Lib example_Config ''TestX'' ''abc'' fresh_World
     = (Fatal ''No snapshot directory exists and UPDATE_SNAPSHOTS=false.  Failing.'',
        fresh_World)"
    using Assert_missing_directory
            [OF nodir_off, of example_Lib "''TestX''" "''abc''", THEN conjunct2]
    by (simp add: isUpdateable_def os_LookupEnv_def fresh_World_def)
  from on off show ?thesis by simp
qed

subsection \<open>The context-line count\<close>

lemma apply_options_invariant:
  assumes "apply_options options c = Inr c'"
      and "P c"
      and "\<And>opt a a'. opt \<in> set options \<Longrightarrow> P a \<Longrightarrow> opt a = (None, a') \<Longrightarrow> P a'"
  shows "P c'"
  using assms
proof (induction options arbitrary: c)
  case Nil
  then show ?case by simp
next
  case (Cons opt options)
  from Cons.prems(1) obtain a where step: "opt c = (None, a)"
    and rest: "apply_options options a = Inr c'"
    by (auto split: prod.splits option.splits)
  have stepped: "P a"
    using Cons.prems(3) [of opt c a] Cons.prems(2) step by simp
  show ?case
  proof (rule Cons.IH [OF rest stepped])
    fix opt' x x'
    assume "opt' \<in> set options" and "P x" and "opt' x = (None, x')"
    then show "P x'"
      using Cons.prems(3) [of opt' x x'] by simp
  qed
qed

lemma apply_options_append:
  "apply_options (before @ after) c =
     (case apply_options before c of
        Inl err \<Rightarrow> Inl err
      | Inr a \<Rightarrow> apply_options after a)"
  by (induction before arbitrary: c) (auto split: prod.splits option.splits)

lemma builtin_keeps_Context:
  assumes "opt \<in> range SnapDirectory \<union> range DiffableOption
                 \<union> range (IgnoreRegex L) \<union> range SnapExtension"
      and "opt a = (None, a')"
  shows "Context a' = Context a"
  using assms
  by (auto simp: SnapDirectory_def DiffableOption_def IgnoreRegex_def SnapExtension_def
      split: sum.splits)

lemma ContextLines_sets: "ContextLines n a = (None, a') \<Longrightarrow> Context a' = n"
  by (auto simp: ContextLines_def)

text \<open>The built-in options other than \<^verbatim>\<open>ContextLines\<close> keep whatever count is set.\<close>

lemma others_keep_Context:
  assumes "apply_options rest a = Inr c"
      and "set rest \<subseteq> range SnapDirectory \<union> range DiffableOption
                       \<union> range (IgnoreRegex L) \<union> range SnapExtension"
  shows "Context c = Context a"
proof (rule apply_options_invariant [OF assms(1), where P = "\<lambda>x. Context x = Context a"])
  show "Context a = Context a"
    by simp
next
  fix opt x x'
  assume "opt \<in> set rest" and same: "Context x = Context a" and step: "opt x = (None, x')"
  with assms(2) have "opt \<in> range SnapDirectory \<union> range DiffableOption
                       \<union> range (IgnoreRegex L) \<union> range SnapExtension"
    by blast
  from builtin_keeps_Context [OF this step] same show "Context x' = Context a"
    by simp
qed

text \<open>
  Claim C9, as the program has it. \<^verbatim>\<open>New\<close> and \<^verbatim>\<open>ContextLines\<close> do not check
  the context-line count. A configuration that \<^verbatim>\<open>New\<close> returns has the count 10
  when the options are built-in ones with no \<^verbatim>\<open>ContextLines\<close> among them. It has
  the count \<open>n\<close>, for every integer \<open>n\<close>, negative ones included, when
  \<^verbatim>\<open>ContextLines n\<close> is the last \<^verbatim>\<open>ContextLines\<close> option and only other built-in
  options follow it. And its count is non-negative when the options are built-in
  ones whose \<^verbatim>\<open>ContextLines\<close> arguments are all non-negative.
\<close>

theorem New_Context:
  assumes "New L w options = Inr c"
  shows "(set options \<subseteq> range SnapDirectory \<union> range DiffableOption
                          \<union> range (IgnoreRegex L) \<union> range SnapExtension \<longrightarrow>
          Context c = 10)
       \<and> (options = opts @ [ContextLines n] @ rest
          \<and> set rest \<subseteq> range SnapDirectory \<union> range DiffableOption
                         \<union> range (IgnoreRegex L) \<union> range SnapExtension \<longrightarrow>
          Context c = n)
       \<and> (set options \<subseteq> range SnapDirectory \<union> range DiffableOption
                          \<union> range (IgnoreRegex L) \<union> range SnapExtension
                          \<union> ContextLines ` {k. 0 \<le> k} \<longrightarrow>
          0 \<le> Context c)"
proof -
  let ?c0 = "\<lambda>wd. \<lparr>Directory = path_Join L wd ''__snapshots__'', Context = 10,
                    Diffable = True, Extension = ''.snap'', ignore = None\<rparr>"
  from assms obtain wd where run: "apply_options options (?c0 wd) = Inr c"
    by (auto simp: New_def split: sum.splits)
  have default: "Context c = 10"
    if "set options \<subseteq> range SnapDirectory \<union> range DiffableOption
                       \<union> range (IgnoreRegex L) \<union> range SnapExtension"
    using others_keep_Context [OF run that] by simp
  have last: "Context c = n"
    if shape: "options = opts @ [ContextLines n] @ rest"
    and others: "set rest \<subseteq> range SnapDirectory \<union> range DiffableOption
                       \<union> range (IgnoreRegex L) \<union> range SnapExtension"
  proof -
    from run shape obtain a where "apply_options ([ContextLines n] @ rest) a = Inr c"
      by (auto simp: apply_options_append split: sum.splits)
    then obtain a' where set: "ContextLines n a = (None, a')"
      and tail: "apply_options rest a' = Inr c"
      by (auto split: prod.splits option.splits)
    from others_keep_Context [OF tail others] ContextLines_sets [OF set]
    show ?thesis by simp
  qed
  have nonneg: "0 \<le> Context c"
    if builtin: "set options \<subseteq> range SnapDirectory \<union> range DiffableOption
                       \<union> range (IgnoreRegex L) \<union> range SnapExtension
                       \<union> ContextLines ` {k. 0 \<le> k}"
  proof (rule apply_options_invariant [OF run, where P = "\<lambda>a. 0 \<le> Context a"])
    show "0 \<le> Context (?c0 wd)"
      by simp
  next
    fix opt a a'
    assume "opt \<in> set options" and pos: "0 \<le> Context a" and step: "opt a = (None, a')"
    with builtin consider
        (other) "opt \<in> range SnapDirectory \<union> range DiffableOption
                       \<union> range (IgnoreRegex L) \<union> range SnapExtension"
      | (lines) k where "opt = ContextLines k" and "0 \<le> k"
      by blast
    then show "0 \<le> Context a'"
    proof cases
      case other
      from builtin_keeps_Context [OF this step] pos show ?thesis by simp
    next
      case lines
      with step ContextLines_sets [of k a a'] show ?thesis by simp
    qed
  qed
  from default last nonneg show ?thesis by blast
qed

theorem New_Context_witness:
  "New example_Lib example_World [DiffableOption False] =
     Inr (example_Config\<lparr>Diffable := False\<rparr>)
   \<and> Context (example_Config\<lparr>Diffable := False\<rparr>) = 10
   \<and> New example_Lib example_World [ContextLines (- 1), ContextLines 3, DiffableOption False] =
     Inr (example_Config\<lparr>Context := 3, Diffable := False\<rparr>)
   \<and> Context (example_Config\<lparr>Context := 3, Diffable := False\<rparr>) = 3
   \<and> New example_Lib example_World [ContextLines 3, DiffableOption False] =
     Inr (example_Config\<lparr>Context := 3, Diffable := False\<rparr>)
   \<and> 0 \<le> Context (example_Config\<lparr>Context := 3, Diffable := False\<rparr>)"
proof -
  have others: "set [DiffableOption False]
      \<subseteq> range SnapDirectory \<union> range DiffableOption
        \<union> range (IgnoreRegex example_Lib) \<union> range SnapExtension"
    by auto
  have run1: "New example_Lib example_World [DiffableOption False] =
                Inr (example_Config\<lparr>Diffable := False\<rparr>)"
    by (simp add: New_def example_World_def example_Lib_def example_Config_def
                  DiffableOption_def)
  have default: "Context (example_Config\<lparr>Diffable := False\<rparr>) = 10"
    using New_Context [OF run1, THEN conjunct1] others by blast
  have run2: "New example_Lib example_World
                [ContextLines (- 1), ContextLines 3, DiffableOption False] =
                Inr (example_Config\<lparr>Context := 3, Diffable := False\<rparr>)"
    by (simp add: New_def example_World_def example_Lib_def example_Config_def
                  ContextLines_def DiffableOption_def)
  have shape: "[ContextLines (- 1), ContextLines 3, DiffableOption False]
                 = [ContextLines (- 1)] @ [ContextLines 3] @ [DiffableOption False]"
    by simp
  have last: "Context (example_Config\<lparr>Context := 3, Diffable := False\<rparr>) = 3"
    using New_Context [OF run2, THEN conjunct2, THEN conjunct1,
                       of "[ContextLines (- 1)]" 3 "[DiffableOption False]"]
          shape others
    by blast
  have run3: "New example_Lib example_World [ContextLines 3, DiffableOption False] =
                Inr (example_Config\<lparr>Context := 3, Diffable := False\<rparr>)"
    by (simp add: New_def example_World_def example_Lib_def example_Config_def
                  ContextLines_def DiffableOption_def)
  have builtin: "set [ContextLines 3, DiffableOption False]
      \<subseteq> range SnapDirectory \<union> range DiffableOption
        \<union> range (IgnoreRegex example_Lib) \<union> range SnapExtension
        \<union> ContextLines ` {k. 0 \<le> k}"
    by auto
  have nonneg: "0 \<le> Context (example_Config\<lparr>Context := 3, Diffable := False\<rparr>)"
    using New_Context [OF run3, THEN conjunct2, THEN conjunct2] builtin by blast
  from run1 default run2 last run3 nonneg show ?thesis by blast
qed

text \<open>
  \<^verbatim>\<open>New\<close> with the option \<^verbatim>\<open>ContextLines(-1)\<close> succeeds and returns a
  configuration whose context-line count is negative.
\<close>

theorem New_Context_negative_counterexample:
  "\<not> isl (New example_Lib example_World [ContextLines (- 1)])
   \<and> Context (projr (New example_Lib example_World [ContextLines (- 1)])) < 0"
  by (simp add: New_def example_World_def ContextLines_def)

end
